theory Spec2Isabelle
  imports Main
begin

section \<open>Data model\<close>

text \<open>
  The dictionary built by \<open>extract_metadata\<close> (extractor.py, lines 43-54): ten fixed
  keys, each holding a value or Python's \<open>None\<close>.
\<close>

record metadata =
  file_path :: "string option"
  spine_version :: "string option"
  spine_prod_version :: "string option"
  model_name :: "string option"
  dataset_name :: "string option"
  run :: "int option"
  subrun :: "int option"
  event_min :: "int option"
  event_max :: "int option"
  num_events :: "int option"

text \<open>
  A column of a compound dataset, as far as the extractor looks at it. A column of an
  integer type is the list of its values. A column of any other type (floating point,
  text, sub-arrays, references) is given by what the four expressions of lines 92-110
  yield on it: \<open>len(col)\<close>, \<open>int(col[0])\<close>, \<open>int(np.min(col))\<close> and
  \<open>int(np.max(col))\<close>, each of the last three \<open>None\<close> when the expression raises (a
  NaN, an infinity, text that is no number).
\<close>

datatype column =
    IntCol "int list"
  | OtherCol nat "int option" "int option" "int option"

text \<open>
  What \<open>f["events"]\<close> of an opened container can be. A group has no \<open>dtype\<close>
  attribute, and a dataset of a plain (non-compound) type has \<open>dtype.names = None\<close>, so
  the membership tests of lines 90-100 raise on both. A compound dataset is a table, its
  field names in order, each with its column: \<open>EvTable\<close> when every column is of an
  integer type, \<open>EvMixed\<close> in general.
\<close>

datatype events_node =
    EvGroup
  | EvPlain
  | EvTable "(string \<times> int list) list"
  | EvMixed "(string \<times> column) list"

text \<open>
  An opened container: the root attributes as \<open>dict(f.attrs)\<close> gives them, each value
  already rendered by \<open>str\<close>, and the member called \<open>events\<close> when there is one.
\<close>

record h5file =
  attrs :: "string \<rightharpoonup> string"
  events :: "events_node option"

text \<open>
  A row of the table \<open>spine_files\<close> (schema.py, class \<open>SpineFile\<close>): the generated
  primary key and the ten columns copied from the metadata dictionary. The column
  \<open>created_at\<close> (wall-clock time of the insertion) is left out.
\<close>

record spine_file =
  sf_id :: nat
  sf_meta :: metadata

text \<open>
  An ORM session: the committed rows of the table, and the objects added by
  \<open>session.add\<close> that no commit has flushed yet.
\<close>

record session =
  rows :: "spine_file list"
  pending :: "metadata list"

text \<open>The exceptions the modelled code can meet.\<close>

datatype error =
    ResolveFailure
  | ExistsFailure
  | ReadFailure
  | IntegrityError
  | DataError
  | ConnectFailure

text \<open>
  Everything the program reads from outside itself. \<open>resolve\<close> is
  \<open>str(Path(p).resolve())\<close>, \<open>None\<close> when it raises (a symbolic link loop, an
  embedded null character). \<open>path_exists\<close> is \<open>Path(p).exists()\<close>, \<open>None\<close> when it
  raises: it answers \<open>False\<close> for a path that is not there, but lets other errors of
  the system through (a name that is too long, a directory that may not be searched).
  \<open>h5open\<close> is \<open>h5py.File(p, "r")\<close> with the read of the root attributes at line 59,
  \<open>None\<close> when either raises. \<open>glob\<close> is \<open>glob.glob\<close>. \<open>connect\<close> is \<open>get_engine\<close>,
  \<open>create_tables\<close> and \<open>get_session\<close> together, giving the rows already in the table,
  \<open>None\<close> when the engine cannot be made or the schema cannot be created. \<open>int_ok\<close>
  tells which integers the backend stores in a column declared \<open>Integer\<close>: SQLite takes
  the signed 64-bit range and raises \<open>OverflowError\<close> outside it, PostgreSQL takes the
  signed 32-bit range. Once connected, the store is taken to answer every query: a
  commit fails only on a value or a constraint.
\<close>

record env =
  resolve :: "string \<Rightarrow> string option"
  path_exists :: "string \<Rightarrow> bool option"
  h5open :: "string \<Rightarrow> h5file option"
  glob :: "string \<Rightarrow> string list"
  connect :: "string \<Rightarrow> spine_file list option"
  int_ok :: "int \<Rightarrow> bool"

text \<open>The lines the program prints.\<close>

datatype msg =
    Found nat
  | ReadWarning string
  | Skip string
  | ErrInvalid string
  | ErrFailed string error
  | Indexed string "int option" "int option" "int option" "string option"
  | NotFound string
  | Complete nat nat

section \<open>Paths\<close>

text \<open>Splitting a string at every occurrence of a separator.\<close>

fun split_on :: "char \<Rightarrow> string \<Rightarrow> string list" where
  "split_on c [] = [[]]"
| "split_on c (x # xs) =
     (if x = c then [] # split_on c xs
      else (case split_on c xs of
              [] \<Rightarrow> [[x]]
            | w # ws \<Rightarrow> (x # w) # ws))"

text \<open>
  \<open>Path(p).parts\<close> on a POSIX system: the root (\<open>"//"\<close> for exactly two leading
  slashes, \<open>"/"\<close> for any other number), then the segments between slashes, empty
  segments and \<open>"."\<close> dropped.
\<close>

definition path_root :: "string \<Rightarrow> string list" where
  "path_root p =
     (if take 2 p = ''//'' \<and> take 3 p \<noteq> ''///'' then [''//'']
      else if take 1 p = ''/'' then [''/'']
      else [])"

definition path_segments :: "string \<Rightarrow> string list" where
  "path_segments p = filter (\<lambda>s. s \<noteq> [] \<and> s \<noteq> ''.'') (split_on CHR ''/'' p)"

definition path_parts :: "string \<Rightarrow> string list" where
  "path_parts p = path_root p @ path_segments p"

text \<open>\<open>Path(p).name\<close>: the last segment, empty when there is none.\<close>

definition path_name :: "string \<Rightarrow> string" where
  "path_name p = (if path_segments p = [] then [] else last (path_segments p))"

text \<open>
  \<open>Path(p).stem\<close>: the name up to its last dot, when that dot is neither the first nor
  the last character of the name; the whole name otherwise.
\<close>

definition path_stem :: "string \<Rightarrow> string" where
  "path_stem p =
     (let name = path_name p;
          k = length (takeWhile (\<lambda>c. c \<noteq> CHR ''.'') (rev name))
      in if CHR ''.'' \<in> set name \<and> 0 < k \<and> Suc k < length name
         then take (length name - Suc k) name
         else name)"

section \<open>The extractor\<close>

definition empty_metadata :: "string \<Rightarrow> metadata" where
  "empty_metadata fp =
     \<lparr> file_path = Some fp, spine_version = None, spine_prod_version = None,
       model_name = None, dataset_name = None, run = None, subrun = None,
       event_min = None, event_max = None, num_events = None \<rparr>"

text \<open>A key, or else a second key, of the attributes (the if/elif pairs of lines 62-81).\<close>

definition attr_or :: "(string \<rightharpoonup> string) \<Rightarrow> string \<Rightarrow> string \<Rightarrow> string option \<Rightarrow> string option" where
  "attr_or a k1 k2 old =
     (case a k1 of Some v \<Rightarrow> Some v
      | None \<Rightarrow> (case a k2 of Some v \<Rightarrow> Some v | None \<Rightarrow> old))"

definition read_attrs :: "(string \<rightharpoonup> string) \<Rightarrow> metadata \<Rightarrow> metadata" where
  "read_attrs a m =
     m \<lparr> spine_version := attr_or a ''spine_version'' ''version'' (spine_version m),
         spine_prod_version :=
           (case a ''spine_prod_version'' of Some v \<Rightarrow> Some v
            | None \<Rightarrow> spine_prod_version m),
         model_name := attr_or a ''model_name'' ''config_name'' (model_name m),
         dataset_name := attr_or a ''dataset_name'' ''dataset'' (dataset_name m) \<rparr>"

text \<open>\<open>int(col[0]) if len(col) > 0 else None\<close>.\<close>

fun first_value :: "int list \<Rightarrow> int option" where
  "first_value [] = None"
| "first_value (x # xs) = Some x"

text \<open>\<open>np.min\<close> and \<open>np.max\<close> of a non-empty column.\<close>

fun np_min :: "int list \<Rightarrow> int" where
  "np_min [] = 0"
| "np_min (x # xs) = fold min xs x"

fun np_max :: "int list \<Rightarrow> int" where
  "np_max [] = 0"
| "np_max (x # xs) = fold max xs x"

definition column :: "(string \<times> int list) list \<Rightarrow> string \<Rightarrow> int list" where
  "column t name = (case map_of t name of Some xs \<Rightarrow> xs | None \<Rightarrow> [])"

text \<open>An integer table as a table of columns.\<close>

definition int_table :: "(string \<times> int list) list \<Rightarrow> (string \<times> column) list" where
  "int_table t = map (\<lambda>(name, xs). (name, IntCol xs)) t"

text \<open>\<open>events_data[name][:]\<close> for a name among \<open>dtype.names\<close>.\<close>

definition field :: "(string \<times> column) list \<Rightarrow> string \<Rightarrow> column" where
  "field t name = (case map_of t name of Some c \<Rightarrow> c | None \<Rightarrow> IntCol [])"

text \<open>
  The four reads of a column; \<open>None\<close> is a raised exception. On an integer column none
  of them raises.
\<close>

fun col_len :: "column \<Rightarrow> nat" where
  "col_len (IntCol xs) = length xs"
| "col_len (OtherCol n first lo hi) = n"

fun col_first :: "column \<Rightarrow> int option" where
  "col_first (IntCol xs) = first_value xs"
| "col_first (OtherCol n first lo hi) = first"

fun col_min :: "column \<Rightarrow> int option" where
  "col_min (IntCol xs) = Some (np_min xs)"
| "col_min (OtherCol n first lo hi) = lo"

fun col_max :: "column \<Rightarrow> int option" where
  "col_max (IntCol xs) = Some (np_max xs)"
| "col_max (OtherCol n first lo hi) = hi"

text \<open>
  Lines 90-92 and 94-96. \<open>None\<close> means that \<open>int(col[0])\<close> raised; the key has then
  not been assigned.
\<close>

definition read_run :: "(string \<times> column) list \<Rightarrow> metadata \<Rightarrow> metadata option" where
  "read_run t m =
     (if ''run'' \<in> set (map fst t) then
        (let runs = field t ''run'' in
         if col_len runs > 0
         then (case col_first runs of
                 None \<Rightarrow> None
               | Some v \<Rightarrow> Some (m \<lparr> run := Some v \<rparr>))
         else Some (m \<lparr> run := None \<rparr>))
      else Some m)"

definition read_subrun :: "(string \<times> column) list \<Rightarrow> metadata \<Rightarrow> metadata option" where
  "read_subrun t m =
     (if ''subrun'' \<in> set (map fst t) then
        (let subruns = field t ''subrun'' in
         if col_len subruns > 0
         then (case col_first subruns of
                 None \<Rightarrow> None
               | Some v \<Rightarrow> Some (m \<lparr> subrun := Some v \<rparr>))
         else Some (m \<lparr> subrun := None \<rparr>))
      else Some m)"

text \<open>
  Lines 98-110: the dictionary when the block ends, and whether it ended by an
  exception. Line 108 assigns \<open>event_min\<close> before line 109 can raise.
\<close>

definition read_event_ids :: "(string \<times> column) list \<Rightarrow> metadata \<Rightarrow> metadata \<times> error option" where
  "read_event_ids t m =
     (if ''event'' \<in> set (map fst t) \<or> ''event_id'' \<in> set (map fst t) then
        (let event_col = (if ''event'' \<in> set (map fst t) then ''event'' else ''event_id'');
             event_ids = field t event_col
         in if col_len event_ids > 0
            then (case col_min event_ids of
                    None \<Rightarrow> (m, Some ReadFailure)
                  | Some lo \<Rightarrow>
                      (case col_max event_ids of
                         None \<Rightarrow> (m \<lparr> event_min := Some lo \<rparr>, Some ReadFailure)
                       | Some hi \<Rightarrow>
                           (m \<lparr> event_min := Some lo, event_max := Some hi,
                                num_events := Some (int (col_len event_ids)) \<rparr>,
                            None)))
            else (m, None))
      else (m, None))"

text \<open>Lines 90-110 on a table: the three blocks in order, up to the first exception.\<close>

definition read_table :: "(string \<times> column) list \<Rightarrow> metadata \<Rightarrow> metadata \<times> error option" where
  "read_table t m =
     (case read_run t m of
        None \<Rightarrow> (m, Some ReadFailure)
      | Some m1 \<Rightarrow>
          (case read_subrun t m1 of
             None \<Rightarrow> (m1, Some ReadFailure)
           | Some m2 \<Rightarrow> read_event_ids t m2))"

text \<open>
  Lines 85-110: the dictionary when the block ends, with the keys assigned until then,
  and the exception if it ended by one.
\<close>

definition read_events :: "events_node option \<Rightarrow> metadata \<Rightarrow> metadata \<times> error option" where
  "read_events ev m =
     (case ev of
        None \<Rightarrow> (m, None)
      | Some EvGroup \<Rightarrow> (m, Some ReadFailure)
      | Some EvPlain \<Rightarrow> (m, Some ReadFailure)
      | Some (EvTable t) \<Rightarrow> read_table (int_table t) m
      | Some (EvMixed t) \<Rightarrow> read_table t m)"

text \<open>Python's truth value of an optional string: \<open>None\<close> and \<open>""\<close> are false.\<close>

definition truthy :: "string option \<Rightarrow> bool" where
  "truthy v = (case v of None \<Rightarrow> False | Some s \<Rightarrow> s \<noteq> [])"

definition known_sites :: "string list" where
  "known_sites = [''icarus'', ''sbnd'', ''2x2'', ''nd-lar'', ''fsd'']"

text \<open>Lines 113-118: the first entry of the site list that is a part of the path.\<close>

definition infer_model_name :: "string \<Rightarrow> metadata \<Rightarrow> metadata" where
  "infer_model_name fp m =
     (if \<not> truthy (model_name m) then
        (case find (\<lambda>part. part \<in> set (path_parts fp)) known_sites of
           Some part \<Rightarrow> m \<lparr> model_name := Some part \<rparr>
         | None \<Rightarrow> m)
      else m)"

text \<open>Lines 121-123.\<close>

definition infer_dataset_name :: "string \<Rightarrow> metadata \<Rightarrow> metadata" where
  "infer_dataset_name fp m =
     (if \<not> truthy (dataset_name m) then m \<lparr> dataset_name := Some (path_stem fp) \<rparr> else m)"

text \<open>
  \<open>extract_metadata\<close>: the returned dictionary together with the lines printed. Line 41
  stands before the \<open>try\<close>, so a failing \<open>resolve\<close> leaves the function as an exception
  (\<open>Inl\<close>); every exception of lines 57-123 is caught at line 125, and the dictionary
  is returned with the keys assigned until then.
\<close>

definition extract_metadata :: "env \<Rightarrow> string \<Rightarrow> error + (metadata \<times> msg list)" where
  "extract_metadata e p =
     (case resolve e p of
        None \<Rightarrow> Inl ResolveFailure
      | Some fp \<Rightarrow>
          (case h5open e fp of
             None \<Rightarrow> Inr (empty_metadata fp, [ReadWarning fp])
           | Some f \<Rightarrow>
               (case read_events (events f) (read_attrs (attrs f) (empty_metadata fp)) of
                  (m2, Some err) \<Rightarrow> Inr (m2, [ReadWarning fp])
                | (m2, None) \<Rightarrow>
                    Inr (infer_dataset_name fp (infer_model_name fp m2), []))))"

text \<open>\<open>validate_metadata\<close>: \<open>metadata.get("file_path") is not None\<close>.\<close>

definition validate_metadata :: "metadata \<Rightarrow> bool" where
  "validate_metadata m = (file_path m \<noteq> None)"

section \<open>The catalog store\<close>

text \<open>
  \<open>session.query(SpineFile).filter_by(file_path=fp).first()\<close>: the first committed row
  with that path.
\<close>

definition query_first :: "session \<Rightarrow> string \<Rightarrow> spine_file option" where
  "query_first s fp = find (\<lambda>r. file_path (sf_meta r) = Some fp) (rows s)"

definition session_add :: "metadata \<Rightarrow> session \<Rightarrow> session" where
  "session_add m s = s \<lparr> pending := pending s @ [m] \<rparr>"

text \<open>
  Whether the backend takes the integers of a row: every integer column that is not
  null must hold a value the backend stores.
\<close>

definition opt_ok :: "env \<Rightarrow> int option \<Rightarrow> bool" where
  "opt_ok e v = (case v of None \<Rightarrow> True | Some n \<Rightarrow> int_ok e n)"

definition row_ok :: "env \<Rightarrow> metadata \<Rightarrow> bool" where
  "row_ok e m =
     (opt_ok e (run m) \<and> opt_ok e (subrun m) \<and> opt_ok e (event_min m) \<and>
      opt_ok e (event_max m) \<and> opt_ok e (num_events m))"

text \<open>
  The key the embedded store gives a new row: one more than the greatest key in the
  table, 1 in an empty table.
\<close>

definition next_id :: "spine_file list \<Rightarrow> nat" where
  "next_id rs = Suc (fold max (map sf_id rs) 0)"

text \<open>
  Flushing the pending objects into the table, in the order they were added. A row with
  an integer the backend does not store is refused when its values are bound. The column
  \<open>file_path\<close> is declared \<open>nullable=False, unique=True\<close> (schema.py, line 53): a row
  without a path, or with a path the table already holds, violates the constraint.
\<close>

fun flush :: "env \<Rightarrow> metadata list \<Rightarrow> spine_file list \<Rightarrow> error + spine_file list" where
  "flush e [] rs = Inr rs"
| "flush e (m # ms) rs =
     (if \<not> row_ok e m then Inl DataError
      else if file_path m = None \<or>
              file_path m \<in> set (map (\<lambda>r. file_path (sf_meta r)) rs)
      then Inl IntegrityError
      else flush e ms (rs @ [\<lparr> sf_id = next_id rs, sf_meta = m \<rparr>]))"

text \<open>
  \<open>session.commit()\<close>: all pending rows are written, or the commit raises and the
  session is as it was.
\<close>

definition session_commit :: "env \<Rightarrow> session \<Rightarrow> error + session" where
  "session_commit e s =
     (case flush e (pending s) (rows s) of
        Inl err \<Rightarrow> Inl err
      | Inr rs \<Rightarrow> Inr \<lparr> rows = rs, pending = [] \<rparr>)"

definition session_rollback :: "session \<Rightarrow> session" where
  "session_rollback s = s \<lparr> pending := [] \<rparr>"

section \<open>The indexer\<close>

text \<open>
  \<open>index_file\<close>: the returned flag, the lines printed and the session afterwards. Line
  27 stands before the \<open>try\<close>, so a failing \<open>resolve\<close> there is an exception of
  \<open>index_file\<close> itself; every exception of lines 38-75 is caught at line 77.
\<close>

definition index_file :: "env \<Rightarrow> session \<Rightarrow> string \<Rightarrow> bool \<Rightarrow> error + (bool \<times> msg list \<times> session)" where
  "index_file e s p skip_existing =
     (case resolve e p of
        None \<Rightarrow> Inl ResolveFailure
      | Some fp \<Rightarrow>
          if skip_existing \<and> query_first s fp \<noteq> None then Inr (True, [Skip fp], s)
          else
            (case extract_metadata e fp of
               Inl err \<Rightarrow> Inr (False, [ErrFailed fp err], session_rollback s)
             | Inr (m, w) \<Rightarrow>
                 if \<not> validate_metadata m then Inr (False, w @ [ErrInvalid fp], s)
                 else
                   (case session_commit e (session_add m s) of
                      Inl err \<Rightarrow>
                        Inr (False, w @ [ErrFailed fp err],
                             session_rollback (session_add m s))
                    | Inr s' \<Rightarrow>
                        Inr (True,
                             w @ [Indexed fp (run m) (subrun m) (num_events m)
                                    (spine_version m)],
                             s'))))"

text \<open>Lines 100-106: the candidate list.\<close>

definition has_wildcard :: "string \<Rightarrow> bool" where
  "has_wildcard pattern = (CHR ''*'' \<in> set pattern \<or> CHR ''?'' \<in> set pattern)"

definition expand_files :: "env \<Rightarrow> string list \<Rightarrow> string list" where
  "expand_files e files =
     foldl (\<lambda>file_list pattern.
              if has_wildcard pattern then file_list @ glob e pattern
              else file_list @ [pattern])
           [] files"

text \<open>
  The state of the loop of lines 114-122, and what it prints. Line 115 stands in no
  \<open>try\<close>: when \<open>exists\<close> raises, the loop and \<open>index_files\<close> end by that exception.
\<close>

record loop_state =
  sess :: session
  success_count :: nat
  error_count :: nat
  out :: "msg list"

fun index_loop :: "env \<Rightarrow> bool \<Rightarrow> string list \<Rightarrow> loop_state \<Rightarrow> error + loop_state" where
  "index_loop e skip_existing [] st = Inr st"
| "index_loop e skip_existing (p # ps) st =
     (case path_exists e p of
        None \<Rightarrow> Inl ExistsFailure
      | Some True \<Rightarrow>
          (case index_file e (sess st) p skip_existing of
             Inl err \<Rightarrow> Inl err
           | Inr (ok, printed, s') \<Rightarrow>
               index_loop e skip_existing ps
                 (if ok
                  then st \<lparr> sess := s', success_count := success_count st + 1,
                           out := out st @ printed \<rparr>
                  else st \<lparr> sess := s', error_count := error_count st + 1,
                           out := out st @ printed \<rparr>))
      | Some False \<Rightarrow>
          index_loop e skip_existing ps
            (st \<lparr> error_count := error_count st + 1, out := out st @ [NotFound p] \<rparr>))"

text \<open>
  \<open>index_files\<close>. The function has no \<open>return\<close> statement and returns \<open>None\<close>: what
  it produces is the printed report and the table it leaves behind. The report is \<open>Found n\<close>, the lines of
  the files in order, and \<open>Complete successes errors\<close>.
\<close>

definition index_files :: "env \<Rightarrow> string \<Rightarrow> string list \<Rightarrow> bool \<Rightarrow> error + (msg list \<times> session)" where
  "index_files e db_url files skip_existing =
     (case connect e db_url of
        None \<Rightarrow> Inl ConnectFailure
      | Some table \<Rightarrow>
          (let file_list = expand_files e files in
           case index_loop e skip_existing file_list
                  \<lparr> sess = \<lparr> rows = table, pending = [] \<rparr>, success_count = 0,
                    error_count = 0, out = [Found (length file_list)] \<rparr> of
             Inl err \<Rightarrow> Inl err
           | Inr st \<Rightarrow>
               Inr (out st @ [Complete (success_count st) (error_count st)], sess st)))"

section \<open>The batch, candidate by candidate\<close>




section \<open>A small file system and store\<close>

text \<open>
  Concrete inputs for the closed theorems below. The containers: one with a version
  attribute and an events table of four rows; one whose \<open>events\<close> member is a group; one
  whose event identifiers are floating-point numbers with a NaN among them; one with the
  event identifier \<open>2^63\<close>. The environment: these four files and a file \<open>bad.h5\<close> that
  exists but cannot be opened, all under \<open>/data/icarus\<close>; a relative name \<open>f.h5\<close> for
  the first of them; a symbolic link \<open>loop\<close> to itself, on which \<open>resolve\<close> raises; names
  of more than 255 characters, on which \<open>exists\<close> raises; one SQLite database, empty at
  the start.
\<close>

definition good_file :: h5file where
  "good_file =
     \<lparr> attrs = [''spine_version'' \<mapsto> ''0.7.0''],
       events = Some (EvTable [(''run'', [12, 12, 12, 12]), (''subrun'', [1, 1, 1, 1]),
                               (''event'', [5, 3, 9, 7])]) \<rparr>"

definition group_file :: h5file where
  "group_file = \<lparr> attrs = [''spine_version'' \<mapsto> ''0.7.0''], events = Some EvGroup \<rparr>"

definition nan_file :: h5file where
  "nan_file =
     \<lparr> attrs = [''spine_version'' \<mapsto> ''0.7.0''],
       events = Some (EvMixed [(''run'', IntCol [12, 12]), (''subrun'', IntCol [1, 1]),
                               (''event'', OtherCol 2 (Some 5) None None)]) \<rparr>"

definition big_file :: h5file where
  "big_file =
     \<lparr> attrs = Map.empty,
       events = Some (EvTable [(''event'', [9223372036854775808])]) \<rparr>"

definition demo_env :: env where
  "demo_env =
     \<lparr> resolve = (\<lambda>p. if p = ''loop'' then None
                       else if p = ''f.h5'' then Some ''/data/icarus/f.h5''
                       else Some p),
       path_exists = (\<lambda>p. if 255 < length p then None
                           else Some (p \<in> {''f.h5'', ''/data/icarus/f.h5'',
                                            ''/data/icarus/bad.h5'', ''/data/icarus/grp.h5'',
                                            ''/data/icarus/nan.h5'', ''/data/icarus/big.h5''})),
       h5open = (\<lambda>p. if p = ''/data/icarus/f.h5'' then Some good_file
                      else if p = ''/data/icarus/grp.h5'' then Some group_file
                      else if p = ''/data/icarus/nan.h5'' then Some nan_file
                      else if p = ''/data/icarus/big.h5'' then Some big_file
                      else None),
       glob = (\<lambda>pat. if pat = ''/data/icarus/*.h5''
                      then [''/data/icarus/bad.h5'', ''/data/icarus/f.h5'',
                            ''/data/icarus/grp.h5'']
                      else []),
       connect = (\<lambda>url. if url = ''sqlite:///spine_files.db'' then Some [] else None),
       int_ok = (\<lambda>n. - 9223372036854775808 \<le> n \<and> n \<le> 9223372036854775807) \<rparr>"


section \<open>Properties of the extractor and of a single insertion\<close>

text \<open>The reads of the events table leave the other keys alone.\<close>

lemma read_run_keeps:
  assumes "read_run t m = Some m1"
  shows "file_path m1 = file_path m" "spine_version m1 = spine_version m"
    "spine_prod_version m1 = spine_prod_version m" "model_name m1 = model_name m"
    "dataset_name m1 = dataset_name m" "subrun m1 = subrun m" "event_min m1 = event_min m"
    "event_max m1 = event_max m" "num_events m1 = num_events m"
  using assms by (auto simp: read_run_def Let_def split: if_splits option.splits)

lemma read_subrun_keeps:
  assumes "read_subrun t m = Some m1"
  shows "file_path m1 = file_path m" "spine_version m1 = spine_version m"
    "spine_prod_version m1 = spine_prod_version m" "model_name m1 = model_name m"
    "dataset_name m1 = dataset_name m" "run m1 = run m" "event_min m1 = event_min m"
    "event_max m1 = event_max m" "num_events m1 = num_events m"
  using assms by (auto simp: read_subrun_def Let_def split: if_splits option.splits)

lemma read_event_ids_keeps:
  "file_path (fst (read_event_ids t m)) = file_path m"
  "spine_version (fst (read_event_ids t m)) = spine_version m"
  "spine_prod_version (fst (read_event_ids t m)) = spine_prod_version m"
  "model_name (fst (read_event_ids t m)) = model_name m"
  "dataset_name (fst (read_event_ids t m)) = dataset_name m"
  "run (fst (read_event_ids t m)) = run m"
  "subrun (fst (read_event_ids t m)) = subrun m"
  by (auto simp: read_event_ids_def Let_def split: option.splits)

lemma read_table_keeps:
  "file_path (fst (read_table t m)) = file_path m"
  "spine_version (fst (read_table t m)) = spine_version m"
  "spine_prod_version (fst (read_table t m)) = spine_prod_version m"
  "model_name (fst (read_table t m)) = model_name m"
  "dataset_name (fst (read_table t m)) = dataset_name m"
  by (auto simp: read_table_def read_event_ids_keeps read_run_keeps read_subrun_keeps
      split: option.splits)

lemma read_events_keeps:
  "file_path (fst (read_events ev m)) = file_path m"
  "spine_version (fst (read_events ev m)) = spine_version m"
  "spine_prod_version (fst (read_events ev m)) = spine_prod_version m"
  "model_name (fst (read_events ev m)) = model_name m"
  "dataset_name (fst (read_events ev m)) = dataset_name m"
  by (auto simp: read_events_def read_table_keeps split: option.splits events_node.splits)

text \<open>An exception in the events block leaves \<open>event_max\<close> and \<open>num_events\<close> as they were.\<close>

lemma read_event_ids_raised:
  assumes "snd (read_event_ids t m) \<noteq> None"
  shows "event_max (fst (read_event_ids t m)) = event_max m"
    "num_events (fst (read_event_ids t m)) = num_events m"
  using assms by (auto simp: read_event_ids_def Let_def split: option.splits if_splits)

lemma read_table_raised:
  assumes "snd (read_table t m) \<noteq> None"
  shows "event_max (fst (read_table t m)) = event_max m"
    "num_events (fst (read_table t m)) = num_events m"
  using assms
  by (auto simp: read_table_def read_event_ids_raised read_run_keeps read_subrun_keeps
      split: option.splits)

lemma read_events_raised:
  assumes "snd (read_events ev m) \<noteq> None"
  shows "event_max (fst (read_events ev m)) = event_max m"
    "num_events (fst (read_events ev m)) = num_events m"
  using assms
  by (auto simp: read_events_def read_table_raised split: option.splits events_node.splits)

lemma read_attrs_file_path: "file_path (read_attrs a m) = file_path m"
  by (simp add: read_attrs_def)

lemma infer_file_path:
  "file_path (infer_dataset_name fp m) = file_path m"
  "file_path (infer_model_name fp m) = file_path m"
  by (auto simp: infer_dataset_name_def infer_model_name_def split: option.splits)

text \<open>The two ways \<open>extract_metadata\<close> returns from an opened container.\<close>

lemma extract_opened:
  assumes "resolve e p = Some fp" "h5open e fp = Some f"
  shows "extract_metadata e p =
           (if snd (read_events (events f) (read_attrs (attrs f) (empty_metadata fp))) = None
            then Inr (infer_dataset_name fp (infer_model_name fp
                        (fst (read_events (events f)
                                (read_attrs (attrs f) (empty_metadata fp))))), [])
            else Inr (fst (read_events (events f) (read_attrs (attrs f) (empty_metadata fp))),
                      [ReadWarning fp]))"
  using assms
  by (cases "read_events (events f) (read_attrs (attrs f) (empty_metadata fp))")
     (auto simp: extract_metadata_def split: option.splits)

lemma extract_unopened:
  assumes "resolve e p = Some fp" "h5open e fp = None"
  shows "extract_metadata e p = Inr (empty_metadata fp, [ReadWarning fp])"
  using assms by (simp add: extract_metadata_def)

lemma extract_returns:
  assumes "resolve e p = Some fp"
  shows "\<exists>m w. extract_metadata e p = Inr (m, w) \<and> file_path m = Some fp
           \<and> (w = [] \<or> w = [ReadWarning fp])"
proof (cases "h5open e fp")
  case None
  then show ?thesis using assms by (simp add: extract_unopened empty_metadata_def)
next
  case (Some f)
  show ?thesis
    unfolding extract_opened[OF assms Some]
    by (simp add: infer_file_path read_events_keeps read_attrs_file_path empty_metadata_def)
qed

lemma extract_file_path:
  assumes "extract_metadata e p = Inr (m, w)"
  shows "file_path m = resolve e p \<and> resolve e p \<noteq> None"
proof (cases "resolve e p")
  case None
  then show ?thesis using assms by (simp add: extract_metadata_def)
next
  case (Some fp)
  then show ?thesis using extract_returns[OF Some] assms by auto
qed

text \<open>An integer table read as a table of columns; none of its reads raises.\<close>

lemma int_table_names: "map fst (int_table t) = map fst t"
  by (induction t) (auto simp: int_table_def)

lemma int_table_field: "field (int_table t) name = IntCol (column t name)"
  by (induction t) (auto simp: int_table_def field_def column_def)

lemma int_table_run:
  "read_run (int_table t) m =
     Some (if ''run'' \<in> set (map fst t) then m \<lparr> run := first_value (column t ''run'') \<rparr>
           else m)"
  by (cases "column t ''run''")
     (simp_all add: read_run_def int_table_names int_table_field Let_def)

lemma int_table_subrun:
  "read_subrun (int_table t) m =
     Some (if ''subrun'' \<in> set (map fst t)
           then m \<lparr> subrun := first_value (column t ''subrun'') \<rparr> else m)"
  by (cases "column t ''subrun''")
     (simp_all add: read_subrun_def int_table_names int_table_field Let_def)

lemma int_table_event_ids:
  "read_event_ids (int_table t) m =
     (if ''event'' \<in> set (map fst t) \<or> ''event_id'' \<in> set (map fst t) then
        (let event_ids =
               column t (if ''event'' \<in> set (map fst t) then ''event'' else ''event_id'')
         in if length event_ids > 0
            then m \<lparr> event_min := Some (np_min event_ids),
                     event_max := Some (np_max event_ids),
                     num_events := Some (int (length event_ids)) \<rparr>
            else m)
      else m, None)"
  by (simp add: read_event_ids_def int_table_names int_table_field Let_def)

lemma int_table_never_raises: "snd (read_table (int_table t) m) = None"
  by (simp add: read_table_def int_table_run int_table_subrun int_table_event_ids)




text \<open>The loop that builds the candidate list, with any list accumulated so far.\<close>

lemma foldl_expand:
  "foldl (\<lambda>file_list pattern. if has_wildcard pattern then file_list @ glob e pattern
                               else file_list @ [pattern]) acc files
   = acc @ concat (map (\<lambda>pattern. if has_wildcard pattern then glob e pattern else [pattern]) files)"
  by (induction files arbitrary: acc) simp_all

section \<open>Properties of the indexer\<close>





























text \<open>The example environment, field by field, and the extractor on its files.\<close>

lemma demo_resolve:
  "resolve demo_env p =
     (if p = ''loop'' then None else if p = ''f.h5'' then Some ''/data/icarus/f.h5''
      else Some p)"
  by (simp add: demo_env_def)

lemma demo_exists:
  "path_exists demo_env p =
     (if 255 < length p then None
      else Some (p \<in> {''f.h5'', ''/data/icarus/f.h5'', ''/data/icarus/bad.h5'',
                       ''/data/icarus/grp.h5'', ''/data/icarus/nan.h5'',
                       ''/data/icarus/big.h5''}))"
  by (simp add: demo_env_def)

lemma demo_int_ok:
  "int_ok demo_env n = (- 9223372036854775808 \<le> n \<and> n \<le> 9223372036854775807)"
  by (simp add: demo_env_def)

lemmas extract_eval = extract_metadata_def empty_metadata_def read_attrs_def attr_or_def
  read_events_def read_table_def read_run_def read_subrun_def read_event_ids_def
  int_table_def field_def infer_model_name_def infer_dataset_name_def truthy_def
  known_sites_def path_parts_def path_root_def path_segments_def path_name_def
  path_stem_def Let_def

lemma extract_good_file:
  "extract_metadata demo_env ''/data/icarus/f.h5'' =
     Inr (\<lparr> file_path = Some ''/data/icarus/f.h5'', spine_version = Some ''0.7.0'',
            spine_prod_version = None, model_name = Some ''icarus'',
            dataset_name = Some ''f'', run = Some 12, subrun = Some 1,
            event_min = Some 3, event_max = Some 9, num_events = Some 4 \<rparr>, [])"
  by (simp add: demo_env_def good_file_def extract_eval)

lemma extract_bad_file:
  "extract_metadata demo_env ''/data/icarus/bad.h5'' =
     Inr (empty_metadata ''/data/icarus/bad.h5'', [ReadWarning ''/data/icarus/bad.h5''])"
  by (simp add: demo_env_def extract_metadata_def)

lemma extract_group_file:
  "extract_metadata demo_env ''/data/icarus/grp.h5'' =
     Inr (\<lparr> file_path = Some ''/data/icarus/grp.h5'', spine_version = Some ''0.7.0'',
            spine_prod_version = None, model_name = None, dataset_name = None,
            run = None, subrun = None, event_min = None, event_max = None,
            num_events = None \<rparr>,
          [ReadWarning ''/data/icarus/grp.h5''])"
  by (simp add: demo_env_def group_file_def extract_eval)

text \<open>
  A NaN among the event identifiers: line 108 raises after \<open>run\<close> and \<open>subrun\<close> have
  been assigned.
\<close>

lemma extract_nan_file:
  "extract_metadata demo_env ''/data/icarus/nan.h5'' =
     Inr (\<lparr> file_path = Some ''/data/icarus/nan.h5'', spine_version = Some ''0.7.0'',
            spine_prod_version = None, model_name = None, dataset_name = None,
            run = Some 12, subrun = Some 1, event_min = None, event_max = None,
            num_events = None \<rparr>,
          [ReadWarning ''/data/icarus/nan.h5''])"
  by (simp add: demo_env_def nan_file_def extract_eval)

lemma extract_big_file:
  "extract_metadata demo_env ''/data/icarus/big.h5'' =
     Inr (\<lparr> file_path = Some ''/data/icarus/big.h5'', spine_version = None,
            spine_prod_version = None, model_name = Some ''icarus'',
            dataset_name = Some ''big'', run = None, subrun = None,
            event_min = Some 9223372036854775808, event_max = Some 9223372036854775808,
            num_events = Some 1 \<rparr>, [])"
  by (simp add: demo_env_def big_file_def extract_eval)

lemmas demo_run = index_file_def demo_resolve demo_exists demo_int_ok extract_good_file
  extract_bad_file extract_group_file extract_nan_file extract_big_file query_first_def
  validate_metadata_def session_commit_def session_add_def session_rollback_def
  empty_metadata_def row_ok_def opt_ok_def next_id_def

text \<open>
  The event identifier \<open>2^63\<close> is more than SQLite stores: the commit raises, the file is
  an error, no row is written, and a second run does the same again.
\<close>

lemma out_of_range_is_error:
  "index_files demo_env ''sqlite:///spine_files.db'' [''/data/icarus/big.h5''] True =
     Inr ([Found 1, ErrFailed ''/data/icarus/big.h5'' DataError, Complete 0 1],
          \<lparr> rows = [], pending = [] \<rparr>)"
proof -
  have "connect demo_env ''sqlite:///spine_files.db'' = Some []"
    by (simp add: demo_env_def)
  moreover have "expand_files demo_env [''/data/icarus/big.h5''] = [''/data/icarus/big.h5'']"
    by (simp add: expand_files_def has_wildcard_def)
  ultimately show ?thesis by (simp add: index_files_def demo_run)
qed




section \<open>Claims\<close>

text \<open>
  C10. Whenever \<open>extract_metadata\<close> returns, the returned dictionary has a
  \<open>file_path\<close>, so \<open>validate_metadata\<close> holds of it; and \<open>index_file\<close> never prints
  the "invalid metadata" line, whatever the file, the session and the flag.
\<close>

theorem extractor_output_always_valid:
  "(\<forall>m w. extract_metadata e p = Inr (m, w) \<longrightarrow> file_path m \<noteq> None \<and> validate_metadata m) \<and>
   (\<forall>ok printed s' q. index_file e s p skip_existing = Inr (ok, printed, s')
        \<longrightarrow> ErrInvalid q \<notin> set printed)"
proof -
  have valid: "validate_metadata m \<and> ErrInvalid q \<notin> set w"
    if ex: "extract_metadata e fp = Inr (m, w)" for fp m w q
  proof -
    obtain r where r: "resolve e fp = Some r" using extract_file_path[OF ex] by fastforce
    from extract_returns[OF r] ex show ?thesis
      by (auto simp: validate_metadata_def)
  qed
  have a: "\<forall>m w. extract_metadata e p = Inr (m, w) \<longrightarrow> file_path m \<noteq> None \<and> validate_metadata m"
    using valid by (auto simp: validate_metadata_def)
  have b: "\<forall>ok printed s' q. index_file e s p skip_existing = Inr (ok, printed, s')
        \<longrightarrow> ErrInvalid q \<notin> set printed"
    using valid
    by (auto simp: index_file_def split: option.splits if_splits sum.splits prod.splits)
  from a b show ?thesis by blast
qed

theorem extractor_output_always_valid_witness:
  "extract_metadata demo_env ''/data/icarus/bad.h5''
     = Inr (empty_metadata ''/data/icarus/bad.h5'', [ReadWarning ''/data/icarus/bad.h5''])
   \<and> validate_metadata (empty_metadata ''/data/icarus/bad.h5'')"
proof -
  have ex: "extract_metadata demo_env ''/data/icarus/bad.h5''
     = Inr (empty_metadata ''/data/icarus/bad.h5'', [ReadWarning ''/data/icarus/bad.h5''])"
    by (simp add: demo_env_def extract_metadata_def)
  with extractor_output_always_valid[of demo_env "''/data/icarus/bad.h5''"] show ?thesis
    by blast
qed






text \<open>
  C8, as stated, fails: the fallback of lines 113-118 is inside the \<open>try\<close>, and an
  exception raised while \<open>events\<close> is read skips it. The container here has no
  \<open>model_name\<close> attribute and lies under a directory \<open>icarus\<close>, and the returned
  \<open>model_name\<close> is absent.
\<close>

theorem model_name_fallback_counterexample:
  "attrs group_file ''model_name'' = None \<and>
   ''icarus'' \<in> set (path_parts ''/data/icarus/grp.h5'') \<and>
   (\<exists>m w. extract_metadata demo_env ''/data/icarus/grp.h5'' = Inr (m, w) \<and>
          model_name m = None)"
  by (simp add: demo_env_def group_file_def extract_metadata_def read_events_def
      read_attrs_def attr_or_def empty_metadata_def path_parts_def path_root_def
      path_segments_def)

text \<open>
  C8, amended: when the container opens, the read of \<open>events\<close> does not raise (there is
  no such member, or it is a table all of whose reads succeed, as they do on every table
  of integer columns), and \<open>model_name\<close> is absent or empty after the attributes have been
  read, then \<open>model_name\<close> becomes the first entry of the list icarus, sbnd, 2x2, nd-lar,
  fsd (in this order) that is a part of the resolved path, and stays as it was when there
  is none; in particular a path with a part \<open>icarus\<close> gives \<open>icarus\<close>.
\<close>

theorem model_name_fallback:
  assumes "resolve e p = Some fp" "h5open e fp = Some f"
    and "events f = None \<or> (\<exists>t. events f = Some (EvTable t)) \<or>
         snd (read_events (events f) (read_attrs (attrs f) (empty_metadata fp))) = None"
    and "\<not> truthy (attr_or (attrs f) ''model_name'' ''config_name'' None)"
  shows "\<exists>m. extract_metadata e p = Inr (m, []) \<and>
           model_name m =
             (case find (\<lambda>site. site \<in> set (path_parts fp))
                     [''icarus'', ''sbnd'', ''2x2'', ''nd-lar'', ''fsd''] of
                Some site \<Rightarrow> Some site
              | None \<Rightarrow> attr_or (attrs f) ''model_name'' ''config_name'' None) \<and>
           (''icarus'' \<in> set (path_parts fp) \<longrightarrow> model_name m = Some ''icarus'')"
proof -
  let ?m1 = "read_attrs (attrs f) (empty_metadata fp)"
  let ?m2 = "fst (read_events (events f) ?m1)"
  have quiet: "snd (read_events (events f) ?m1) = None"
    using assms(3) by (auto simp: read_events_def int_table_never_raises)
  have mn: "model_name ?m2 = attr_or (attrs f) ''model_name'' ''config_name'' None"
    by (simp add: read_events_keeps read_attrs_def empty_metadata_def)
  have ex: "extract_metadata e p = Inr (infer_dataset_name fp (infer_model_name fp ?m2), [])"
    unfolding extract_opened[OF assms(1,2)] using quiet by simp
  have "model_name (infer_dataset_name fp (infer_model_name fp ?m2)) =
          (case find (\<lambda>site. site \<in> set (path_parts fp)) known_sites of
             Some site \<Rightarrow> Some site
           | None \<Rightarrow> attr_or (attrs f) ''model_name'' ''config_name'' None)"
    using assms(4) mn
    by (simp add: infer_dataset_name_def infer_model_name_def split: option.splits)
  then show ?thesis using ex by (simp add: known_sites_def)
qed

theorem model_name_fallback_witness:
  "\<exists>m. extract_metadata demo_env ''f.h5'' = Inr (m, []) \<and> model_name m = Some ''icarus''"
proof -
  have "''icarus'' \<in> set (path_parts ''/data/icarus/f.h5'')"
    by (simp add: path_parts_def path_root_def path_segments_def)
  moreover have "\<exists>m. extract_metadata demo_env ''f.h5'' = Inr (m, []) \<and>
           model_name m =
             (case find (\<lambda>site. site \<in> set (path_parts ''/data/icarus/f.h5''))
                     [''icarus'', ''sbnd'', ''2x2'', ''nd-lar'', ''fsd''] of
                Some site \<Rightarrow> Some site
              | None \<Rightarrow> attr_or (attrs good_file) ''model_name'' ''config_name'' None) \<and>
           (''icarus'' \<in> set (path_parts ''/data/icarus/f.h5'') \<longrightarrow>
              model_name m = Some ''icarus'')"
    by (rule model_name_fallback[where f = good_file])
       (simp_all add: demo_env_def good_file_def attr_or_def truthy_def)
  ultimately show ?thesis by blast
qed

text \<open>
  C9. The candidate list of \<open>index_files\<close> is the concatenation, in the order of the
  patterns, of \<open>glob.glob\<close> of every pattern that contains \<open>*\<close> or \<open>?\<close> and of every
  other pattern itself, whether it exists or not; nothing is removed, so overlapping
  patterns give their common matches more than once.
\<close>

theorem expand_files_concat:
  "expand_files e files =
     concat (map (\<lambda>pattern. if CHR ''*'' \<in> set pattern \<or> CHR ''?'' \<in> set pattern
                             then glob e pattern else [pattern]) files)"
  unfolding expand_files_def foldl_expand by (simp add: has_wildcard_def)

text \<open>
  C6, as stated, fails for a container that opens but cannot be read to the end: the keys
  assigned before the failure stay in the returned dictionary. Here the \<open>events\<close>
  member is a group, the read raises at line 90, and \<open>spine_version\<close> is present in the
  result.
\<close>

theorem partial_read_counterexample:
  "h5open demo_env ''/data/icarus/grp.h5'' = Some group_file \<and>
   snd (read_events (events group_file)
          (read_attrs (attrs group_file) (empty_metadata ''/data/icarus/grp.h5'')))
     = Some ReadFailure \<and>
   (\<exists>m. extract_metadata demo_env ''/data/icarus/grp.h5''
           = Inr (m, [ReadWarning ''/data/icarus/grp.h5'']) \<and>
        spine_version m = Some ''0.7.0'')"
  by (simp add: extract_group_file)
     (simp add: demo_env_def group_file_def read_events_def)

text \<open>
  C6, amended: for a path that resolves to \<open>fp\<close>, the returned dictionary always has
  \<open>file_path = fp\<close>. When the container cannot be opened, every other key is absent.
  When it opens and a later read raises, wherever that happens, the keys assigned before
  the exception stay: \<open>spine_version\<close>, \<open>spine_prod_version\<close>, \<open>model_name\<close> and
  \<open>dataset_name\<close> are what the attributes give, with no fallback from the path, and
  \<open>event_max\<close> and \<open>num_events\<close> are absent (\<open>run\<close>, \<open>subrun\<close> and \<open>event_min\<close> may
  have been assigned). When the exception comes from an \<open>events\<close> member that is a group
  or a dataset of a plain type, \<open>run\<close>, \<open>subrun\<close> and \<open>event_min\<close> are absent as well.
  In each case one warning is printed.
\<close>

theorem unreadable_container_record:
  assumes "resolve e p = Some fp"
  shows "(h5open e fp = None \<longrightarrow>
            extract_metadata e p =
              Inr (\<lparr> file_path = Some fp, spine_version = None, spine_prod_version = None,
                     model_name = None, dataset_name = None, run = None, subrun = None,
                     event_min = None, event_max = None, num_events = None \<rparr>,
                   [ReadWarning fp])) \<and>
         (\<forall>f. h5open e fp = Some f \<and>
              snd (read_events (events f) (read_attrs (attrs f) (empty_metadata fp))) \<noteq> None
              \<longrightarrow>
              (\<exists>m. extract_metadata e p = Inr (m, [ReadWarning fp]) \<and>
                   file_path m = Some fp \<and>
                   spine_version m = attr_or (attrs f) ''spine_version'' ''version'' None \<and>
                   spine_prod_version m = attrs f ''spine_prod_version'' \<and>
                   model_name m = attr_or (attrs f) ''model_name'' ''config_name'' None \<and>
                   dataset_name m = attr_or (attrs f) ''dataset_name'' ''dataset'' None \<and>
                   event_max m = None \<and> num_events m = None)) \<and>
         (\<forall>f. h5open e fp = Some f \<and> events f \<in> {Some EvGroup, Some EvPlain} \<longrightarrow>
            extract_metadata e p =
              Inr (\<lparr> file_path = Some fp,
                     spine_version = attr_or (attrs f) ''spine_version'' ''version'' None,
                     spine_prod_version = attrs f ''spine_prod_version'',
                     model_name = attr_or (attrs f) ''model_name'' ''config_name'' None,
                     dataset_name = attr_or (attrs f) ''dataset_name'' ''dataset'' None,
                     run = None, subrun = None,
                     event_min = None, event_max = None, num_events = None \<rparr>,
                   [ReadWarning fp]))"
proof (intro conjI allI impI)
  assume "h5open e fp = None"
  then show "extract_metadata e p =
              Inr (\<lparr> file_path = Some fp, spine_version = None, spine_prod_version = None,
                     model_name = None, dataset_name = None, run = None, subrun = None,
                     event_min = None, event_max = None, num_events = None \<rparr>,
                   [ReadWarning fp])"
    using assms by (simp add: extract_unopened empty_metadata_def)
next
  fix f :: h5file
  let ?m1 = "read_attrs (attrs f) (empty_metadata fp)"
  assume a: "h5open e fp = Some f \<and> snd (read_events (events f) ?m1) \<noteq> None"
  then have ex: "extract_metadata e p = Inr (fst (read_events (events f) ?m1), [ReadWarning fp])"
    using extract_opened[OF assms, of f] by simp
  have "spine_prod_version ?m1 = attrs f ''spine_prod_version''"
    by (simp add: read_attrs_def empty_metadata_def split: option.splits)
  then show "\<exists>m. extract_metadata e p = Inr (m, [ReadWarning fp]) \<and>
                   file_path m = Some fp \<and>
                   spine_version m = attr_or (attrs f) ''spine_version'' ''version'' None \<and>
                   spine_prod_version m = attrs f ''spine_prod_version'' \<and>
                   model_name m = attr_or (attrs f) ''model_name'' ''config_name'' None \<and>
                   dataset_name m = attr_or (attrs f) ''dataset_name'' ''dataset'' None \<and>
                   event_max m = None \<and> num_events m = None"
    using ex a
    by (simp add: read_events_keeps read_events_raised)
       (simp add: read_attrs_def empty_metadata_def)
next
  fix f :: h5file
  assume a: "h5open e fp = Some f \<and> events f \<in> {Some EvGroup, Some EvPlain}"
  then show "extract_metadata e p =
              Inr (\<lparr> file_path = Some fp,
                     spine_version = attr_or (attrs f) ''spine_version'' ''version'' None,
                     spine_prod_version = attrs f ''spine_prod_version'',
                     model_name = attr_or (attrs f) ''model_name'' ''config_name'' None,
                     dataset_name = attr_or (attrs f) ''dataset_name'' ''dataset'' None,
                     run = None, subrun = None,
                     event_min = None, event_max = None, num_events = None \<rparr>,
                   [ReadWarning fp])"
    using assms
    by (auto simp: extract_metadata_def empty_metadata_def read_events_def read_attrs_def
        split: option.splits)
qed

theorem unreadable_container_record_witness:
  "extract_metadata demo_env ''/data/icarus/bad.h5'' =
     Inr (\<lparr> file_path = Some ''/data/icarus/bad.h5'', spine_version = None,
            spine_prod_version = None, model_name = None, dataset_name = None, run = None,
            subrun = None, event_min = None, event_max = None, num_events = None \<rparr>,
          [ReadWarning ''/data/icarus/bad.h5'']) \<and>
   (\<exists>m. extract_metadata demo_env ''/data/icarus/nan.h5'' =
          Inr (m, [ReadWarning ''/data/icarus/nan.h5'']) \<and>
        file_path m = Some ''/data/icarus/nan.h5'' \<and> spine_version m = Some ''0.7.0'' \<and>
        model_name m = None \<and> dataset_name m = None \<and> run m = Some 12 \<and>
        subrun m = Some 1 \<and> event_max m = None \<and> num_events m = None)"
proof -
  have r: "resolve demo_env ''/data/icarus/bad.h5'' = Some ''/data/icarus/bad.h5''"
    and r': "resolve demo_env ''/data/icarus/nan.h5'' = Some ''/data/icarus/nan.h5''"
    by (simp_all add: demo_env_def)
  have h: "h5open demo_env ''/data/icarus/bad.h5'' = None" by (simp add: demo_env_def)
  have h': "h5open demo_env ''/data/icarus/nan.h5'' = Some nan_file \<and>
            snd (read_events (events nan_file)
                   (read_attrs (attrs nan_file) (empty_metadata ''/data/icarus/nan.h5'')))
              \<noteq> None"
    by (simp add: demo_env_def nan_file_def read_events_def read_table_def read_run_def
        read_subrun_def read_event_ids_def field_def Let_def)
  have 1: "extract_metadata demo_env ''/data/icarus/bad.h5'' =
     Inr (\<lparr> file_path = Some ''/data/icarus/bad.h5'', spine_version = None,
            spine_prod_version = None, model_name = None, dataset_name = None, run = None,
            subrun = None, event_min = None, event_max = None, num_events = None \<rparr>,
          [ReadWarning ''/data/icarus/bad.h5''])"
    using unreadable_container_record[OF r] h by blast
  have "\<exists>m. extract_metadata demo_env ''/data/icarus/nan.h5'' =
               Inr (m, [ReadWarning ''/data/icarus/nan.h5'']) \<and>
             file_path m = Some ''/data/icarus/nan.h5'' \<and>
             spine_version m = attr_or (attrs nan_file) ''spine_version'' ''version'' None \<and>
             spine_prod_version m = attrs nan_file ''spine_prod_version'' \<and>
             model_name m = attr_or (attrs nan_file) ''model_name'' ''config_name'' None \<and>
             dataset_name m = attr_or (attrs nan_file) ''dataset_name'' ''dataset'' None \<and>
             event_max m = None \<and> num_events m = None"
    using unreadable_container_record[OF r'] h' by blast
  then have 2: "\<exists>m. extract_metadata demo_env ''/data/icarus/nan.h5'' =
          Inr (m, [ReadWarning ''/data/icarus/nan.h5'']) \<and>
        file_path m = Some ''/data/icarus/nan.h5'' \<and> spine_version m = Some ''0.7.0'' \<and>
        model_name m = None \<and> dataset_name m = None \<and> run m = Some 12 \<and>
        subrun m = Some 1 \<and> event_max m = None \<and> num_events m = None"
    unfolding extract_nan_file by (simp add: nan_file_def attr_or_def)
  from 1 2 show ?thesis by blast
qed











end
